theory Spec2Isabelle
  imports Main "HOL-Library.AList"
begin

section \<open>The SQL connector of \<^verbatim>\<open>python_sql_connector.py\<close>\<close>

text \<open>
  The class \<^verbatim>\<open>SQLConnector\<close> wraps a database driver (psycopg2) and pandas. Both are
  external: neither is part of the repository. Every call into them is therefore a
  parameter of the model. A value of the record \<open>driver\<close> below says, for each driver
  method, what the call answers: it returns, or it raises. Each method of the connector
  calls each driver method at most once, so one such record describes everything a
  (stateful) driver can do during one call of the connector; a sequence of calls of the
  connector takes one record per call.

  A method of the connector is a function from the state of the object (its attributes)
  to an outcome (\<open>Inl\<close> the exception that propagates to the caller, \<open>Inr\<close> the value
  returned), the new state, and the list of external calls it made, in the order it made
  them.
\<close>

subsection \<open>Values\<close>

text \<open>A Python \<^verbatim>\<open>str\<close> argument whose default is \<^verbatim>\<open>None\<close>.\<close>

type_synonym pystr = "string option"

text \<open>Handles of the driver: a connection and a cursor.\<close>

datatype conn = Conn nat

datatype cursor = Cursor nat

text \<open>
  The exceptions that occur: the ones Python raises for the source's own statements
  (\<^verbatim>\<open>assert\<close>, the iteration over \<^verbatim>\<open>cursor.description\<close>, an attribute that is not
  set) and the ones the driver or pandas raise, which the source never inspects. All of
  them are instances of \<^verbatim>\<open>Exception\<close>, as every psycopg2 error is.
\<close>

datatype exn =
    AssertionError string
  | AttributeError string
  | TypeError string
  | DriverError string

fun str :: "exn \<Rightarrow> string" where
  "str (AssertionError m) = m"
| "str (AttributeError m) = m"
| "str (TypeError m) = m"
| "str (DriverError m) = m"

text \<open>
  One entry of \<^verbatim>\<open>cursor.description\<close>; the source reads its item 0, the column name.
\<close>

datatype column_meta = Column (col_name: string) (type_code: int)

text \<open>
  What \<^verbatim>\<open>__exit__\<close> of the connection does: it raises, or it returns a value whose
  truth decides whether a pending exception is swallowed.
\<close>

datatype exit_outcome = ExitRaises exn | ExitReturns bool

text \<open>
  The external calls, each with its arguments and its answer. \<open>'v\<close> is the type of the
  values in a row. \<^verbatim>\<open>gc.collect()\<close> and \<^verbatim>\<open>print\<close> are recorded too.
\<close>

datatype 'v event =
    Connect pystr pystr pystr pystr pystr "exn + conn"
  | ConnClose conn "exn option"
  | GcCollect
  | Print string
  | ConnEnter conn "exn + conn"
  | ConnExit conn "exn option" exit_outcome
  | ConnCursor conn "exn + cursor"
  | CursorExecute cursor string "exn option"
  | ConnCommit conn "exn option"
  | ConnRollback conn "exn option"
  | CursorFetchone cursor "exn + 'v list option"
  | CursorFetchall cursor "exn + 'v list list"
  | CursorDescription cursor "column_meta list option"
  | CursorClose cursor "exn option"

text \<open>
  The answers of the driver and of \<^verbatim>\<open>pd.DataFrame\<close>. For a method that returns nothing,
  \<open>None\<close> is a normal return and \<open>Some e\<close> raises \<open>e\<close>. \<^verbatim>\<open>cursor.description\<close> is an
  attribute: it is a sequence, or \<^verbatim>\<open>None\<close> when the statement produced no result set.
\<close>

record 'v driver =
  connect :: "pystr \<Rightarrow> pystr \<Rightarrow> pystr \<Rightarrow> pystr \<Rightarrow> pystr \<Rightarrow> exn + conn"
  conn_close :: "conn \<Rightarrow> exn option"
  conn_enter :: "conn \<Rightarrow> exn + conn"
  conn_exit :: "conn \<Rightarrow> exn option \<Rightarrow> exit_outcome"
  conn_cursor :: "conn \<Rightarrow> exn + cursor"
  conn_commit :: "conn \<Rightarrow> exn option"
  conn_rollback :: "conn \<Rightarrow> exn option"
  cursor_execute :: "cursor \<Rightarrow> string \<Rightarrow> exn option"
  cursor_fetchone :: "cursor \<Rightarrow> exn + 'v list option"
  cursor_fetchall :: "cursor \<Rightarrow> exn + 'v list list"
  cursor_description :: "cursor \<Rightarrow> column_meta list option"
  cursor_close :: "cursor \<Rightarrow> exn option"
  pd_DataFrame :: "'v list list \<Rightarrow> string list \<Rightarrow> exn option"

subsection \<open>The state of a connector\<close>

text \<open>
  \<^verbatim>\<open>__init__\<close> sets no attribute. An attribute that has not been assigned is \<open>None\<close>
  here; \<^verbatim>\<open>hasattr(self, "connection")\<close> is \<open>self_connection s \<noteq> None\<close>.
\<close>

record connector =
  self_connection :: "conn option"
  self_database :: "pystr option"
  self_user :: "pystr option"
  self_password :: "pystr option"
  self_host :: "pystr option"
  self_port :: "pystr option"

definition init :: connector where
  "init = \<lparr>self_connection = None, self_database = None, self_user = None,
           self_password = None, self_host = None, self_port = None\<rparr>"

subsection \<open>Statements\<close>

type_synonym ('v, 'a) act = "connector \<Rightarrow> (exn + 'a) \<times> connector \<times> 'v event list"

definition act_return :: "'a \<Rightarrow> ('v, 'a) act" where
  "act_return a = (\<lambda>s. (Inr a, s, []))"

definition py_raise :: "exn \<Rightarrow> ('v, 'a) act" where
  "py_raise e = (\<lambda>s. (Inl e, s, []))"

text \<open>Sequencing: an exception of the first statement skips the second.\<close>

definition act_bind :: "('v, 'a) act \<Rightarrow> ('a \<Rightarrow> ('v, 'b) act) \<Rightarrow> ('v, 'b) act" where
  "act_bind m f = (\<lambda>s.
     case m s of
       (Inl e, s1, t1) \<Rightarrow> (Inl e, s1, t1)
     | (Inr a, s1, t1) \<Rightarrow> (case f a s1 of (r, s2, t2) \<Rightarrow> (r, s2, t1 @ t2)))"

text \<open>
  \<^verbatim>\<open>try: m  except Exception as e: h(e)\<close>. Every exception of the model is an
  \<^verbatim>\<open>Exception\<close>, so the handler takes them all.
\<close>

definition try_except :: "('v, 'a) act \<Rightarrow> (exn \<Rightarrow> ('v, 'a) act) \<Rightarrow> ('v, 'a) act" where
  "try_except m h = (\<lambda>s.
     case m s of
       (Inl e, s1, t1) \<Rightarrow> (case h e s1 of (r, s2, t2) \<Rightarrow> (r, s2, t1 @ t2))
     | (Inr a, s1, t1) \<Rightarrow> (Inr a, s1, t1))"

text \<open>
  \<^verbatim>\<open>assert b, msg\<close>, in an interpreter that runs assertions (Python's default).
\<close>

definition py_assert :: "bool \<Rightarrow> string \<Rightarrow> ('v, unit) act" where
  "py_assert b msg = (if b then act_return () else py_raise (AssertionError msg))"

text \<open>An external call that returns a value, and one that returns nothing.\<close>

definition call :: "(exn + 'a \<Rightarrow> 'v event) \<Rightarrow> exn + 'a \<Rightarrow> ('v, 'a) act" where
  "call ev r = (\<lambda>s. (r, s, [ev r]))"

definition call_unit :: "(exn option \<Rightarrow> 'v event) \<Rightarrow> exn option \<Rightarrow> ('v, unit) act" where
  "call_unit ev r = (\<lambda>s. ((case r of None \<Rightarrow> Inr () | Some e \<Rightarrow> Inl e), s, [ev r]))"

definition effect :: "'v event \<Rightarrow> ('v, unit) act" where
  "effect ev = (\<lambda>s. (Inr (), s, [ev]))"

text \<open>Reading \<^verbatim>\<open>self.connection\<close>, and \<^verbatim>\<open>del self.connection\<close>.\<close>

definition get_connection :: "('v, conn) act" where
  "get_connection = (\<lambda>s.
     case self_connection s of
       None \<Rightarrow> (Inl (AttributeError ''connection''), s, [])
     | Some c \<Rightarrow> (Inr c, s, []))"

definition del_connection :: "('v, unit) act" where
  "del_connection = (\<lambda>s.
     case self_connection s of
       None \<Rightarrow> (Inl (AttributeError ''connection''), s, [])
     | Some c \<Rightarrow> (Inr (), s\<lparr>self_connection := None\<rparr>, []))"

text \<open>
  \<^verbatim>\<open>with mgr as x: body\<close>. \<^verbatim>\<open>__enter__\<close> gives \<open>x\<close>; if it raises, \<^verbatim>\<open>__exit__\<close> is not
  called. When the body raises, \<^verbatim>\<open>__exit__\<close> receives the exception: the exception goes on
  unless \<^verbatim>\<open>__exit__\<close> returns a true value (then the statement after the \<^verbatim>\<open>with\<close> runs;
  in \<^verbatim>\<open>execute_query\<close> that is the end of the function, which returns \<^verbatim>\<open>None\<close>) or raises
  itself. When the body returns, \<^verbatim>\<open>__exit__\<close> is called without an exception and its
  result is dropped. The argument \<open>after\<close> is the value of what follows the \<^verbatim>\<open>with\<close>.
\<close>

definition with_stmt ::
  "'v driver \<Rightarrow> conn \<Rightarrow> 'a \<Rightarrow> (conn \<Rightarrow> ('v, 'a) act) \<Rightarrow> ('v, 'a) act" where
  "with_stmt D mgr after body = (\<lambda>s.
     case conn_enter D mgr of
       Inl e \<Rightarrow> (Inl e, s, [ConnEnter mgr (Inl e)])
     | Inr x \<Rightarrow>
         (case body x s of
            (Inl e, s1, t1) \<Rightarrow>
              (case conn_exit D mgr (Some e) of
                 ExitRaises e' \<Rightarrow>
                   (Inl e', s1, ConnEnter mgr (Inr x) # t1 @ [ConnExit mgr (Some e) (ExitRaises e')])
               | ExitReturns b \<Rightarrow>
                   ((if b then Inr after else Inl e), s1,
                    ConnEnter mgr (Inr x) # t1 @ [ConnExit mgr (Some e) (ExitReturns b)]))
          | (Inr a, s1, t1) \<Rightarrow>
              (case conn_exit D mgr None of
                 ExitRaises e' \<Rightarrow>
                   (Inl e', s1, ConnEnter mgr (Inr x) # t1 @ [ConnExit mgr None (ExitRaises e')])
               | ExitReturns b \<Rightarrow>
                   (Inr a, s1, ConnEnter mgr (Inr x) # t1 @ [ConnExit mgr None (ExitReturns b)]))))"

subsection \<open>The methods\<close>

text \<open>
  The decorator \<^verbatim>\<open>_check_connection\<close>:
  \<^verbatim>\<open>assert hasattr(self, "connection"), "there is no open connection."\<close>, then the
  decorated method.
\<close>

definition check_connection :: "('v, 'a) act \<Rightarrow> ('v, 'a) act" where
  "check_connection func = (\<lambda>s.
     act_bind (py_assert (self_connection s \<noteq> None) ''there is no open connection.'')
       (\<lambda>_. func) s)"

text \<open>
  \<^verbatim>\<open>close_connection\<close>: \<^verbatim>\<open>self.connection.close()\<close>, \<^verbatim>\<open>del self.connection\<close>,
  \<^verbatim>\<open>gc.collect()\<close>, \<^verbatim>\<open>print("connection closed")\<close>.
\<close>

definition close_connection :: "'v driver \<Rightarrow> ('v, unit) act" where
  "close_connection D =
     check_connection
       (act_bind get_connection (\<lambda>c.
        act_bind (call_unit (ConnClose c) (conn_close D c)) (\<lambda>_.
        act_bind del_connection (\<lambda>_.
        act_bind (effect GcCollect) (\<lambda>_.
        effect (Print ''connection closed''))))))"

text \<open>
  \<^verbatim>\<open>open_connection\<close>. The five attributes are assigned, then \<^verbatim>\<open>psycopg2.connect\<close> is
  called with the values just stored; \<^verbatim>\<open>self.connection\<close> is assigned only when it
  returns. \<^verbatim>\<open>connection_type\<close> is not used.
\<close>

definition set_config :: "pystr \<Rightarrow> pystr \<Rightarrow> pystr \<Rightarrow> pystr \<Rightarrow> pystr \<Rightarrow> ('v, unit) act" where
  "set_config database user password host port = (\<lambda>s.
     (Inr (),
      s\<lparr>self_database := Some database, self_user := Some user,
        self_password := Some password, self_host := Some host, self_port := Some port\<rparr>,
      []))"

definition set_connection :: "conn \<Rightarrow> ('v, unit) act" where
  "set_connection c = (\<lambda>s. (Inr (), s\<lparr>self_connection := Some c\<rparr>, []))"

definition open_connection ::
  "'v driver \<Rightarrow> pystr \<Rightarrow> pystr \<Rightarrow> pystr \<Rightarrow> pystr \<Rightarrow> pystr \<Rightarrow> string \<Rightarrow> ('v, unit) act" where
  "open_connection D database user password host port connection_type = (\<lambda>s.
     act_bind (if self_connection s \<noteq> None then close_connection D else act_return ()) (\<lambda>_.
     act_bind (set_config database user password host port) (\<lambda>_.
     act_bind (call (Connect database user password host port)
                 (connect D database user password host port)) (\<lambda>c.
     set_connection c))) s)"

text \<open>What \<^verbatim>\<open>execute_query\<close> returns.\<close>

datatype 'v payload =
    Rows "'v list list"
  | DataFrame "'v list list" "string list"
  | Records "(string \<times> 'v) list list"

datatype 'v result =
    RetNone
  | RetCursor cursor
  | RetData "'v payload"
  | RetDataCursor "'v payload" cursor

text \<open>
  \<^verbatim>\<open>{column: value for value, column in zip(row, columns)}\<close>. A Python dict keeps the
  order in which its keys were first inserted, and a key inserted again keeps its place
  and takes the new value: that is \<open>AList.update\<close> on an association list. \<^verbatim>\<open>zip\<close> stops
  at the shorter of its arguments.
\<close>

definition make_record :: "'v list \<Rightarrow> string list \<Rightarrow> (string \<times> 'v) list" where
  "make_record row columns =
     fold (\<lambda>(value, column) d. AList.update column value d) (zip row columns) []"

text \<open>
  Lines 120 to 125: \<^verbatim>\<open>fetchone()\<close> gives a row or \<^verbatim>\<open>None\<close>; \<^verbatim>\<open>fetchall()\<close> gives the
  rows, each turned into a list (a row is a list here already).
\<close>

definition fetch_results :: "'v driver \<Rightarrow> cursor \<Rightarrow> string \<Rightarrow> ('v, 'v list list) act" where
  "fetch_results D cur fetch =
     (if fetch = ''one'' then
        act_bind (call (CursorFetchone cur) (cursor_fetchone D cur)) (\<lambda>results.
        act_return (case results of None \<Rightarrow> [] | Some row \<Rightarrow> [row]))
      else
        act_bind (call (CursorFetchall cur) (cursor_fetchall D cur)) (\<lambda>results.
        act_return (map (\<lambda>row. row) results)))"

text \<open>
  Line 127: \<^verbatim>\<open>[row[0] for row in cursor.description]\<close>; iterating \<^verbatim>\<open>None\<close> raises a
  \<^verbatim>\<open>TypeError\<close>.
\<close>

definition read_columns :: "'v driver \<Rightarrow> cursor \<Rightarrow> ('v, string list) act" where
  "read_columns D cur = (\<lambda>s.
     case cursor_description D cur of
       None \<Rightarrow> (Inl (TypeError '''NoneType' object is not iterable''), s,
                [CursorDescription cur None])
     | Some description \<Rightarrow>
         (Inr (map col_name description), s, [CursorDescription cur (Some description)]))"

text \<open>
  Lines 129 to 135. The two assertions at the start of \<^verbatim>\<open>execute_query\<close> leave at most
  one of \<^verbatim>\<open>return_dataframe\<close> and \<^verbatim>\<open>return_records\<close> true here, so the second \<^verbatim>\<open>if\<close>
  never sees a data frame.
\<close>

definition reshape ::
  "'v driver \<Rightarrow> bool \<Rightarrow> bool \<Rightarrow> 'v list list \<Rightarrow> string list \<Rightarrow> ('v, 'v payload) act" where
  "reshape D return_dataframe return_records results columns =
     (if return_dataframe then
        (case pd_DataFrame D results columns of
           Some e \<Rightarrow> py_raise e
         | None \<Rightarrow> act_return (DataFrame results columns))
      else if return_records then
        act_return (Records (map (\<lambda>row. make_record row columns) results))
      else act_return (Rows results))"

text \<open>
  The commit branch, lines 106 to 118, and the read branch, lines 120 to 142, for the
  cursor \<open>cur\<close> on which the query has been executed.
\<close>

definition commit_branch :: "'v driver \<Rightarrow> cursor \<Rightarrow> bool \<Rightarrow> ('v, 'v result) act" where
  "commit_branch D cur return_cursor =
     act_bind
       (try_except
          (act_bind get_connection (\<lambda>c. call_unit (ConnCommit c) (conn_commit D c)))
          (\<lambda>e. act_bind get_connection (\<lambda>c.
                act_bind (call_unit (ConnRollback c) (conn_rollback D c)) (\<lambda>_.
                effect (Print (str e)))))) (\<lambda>_.
     if return_cursor then act_return (RetCursor cur)
     else act_bind (call_unit (CursorClose cur) (cursor_close D cur)) (\<lambda>_.
          act_return RetNone))"

definition read_branch ::
  "'v driver \<Rightarrow> cursor \<Rightarrow> string \<Rightarrow> bool \<Rightarrow> bool \<Rightarrow> bool \<Rightarrow> ('v, 'v result) act" where
  "read_branch D cur fetch return_dataframe return_records return_cursor =
     act_bind (fetch_results D cur fetch) (\<lambda>results.
     act_bind (read_columns D cur) (\<lambda>columns.
     act_bind (reshape D return_dataframe return_records results columns) (\<lambda>results'.
     if return_cursor then act_return (RetDataCursor results' cur)
     else act_bind (call_unit (CursorClose cur) (cursor_close D cur)) (\<lambda>_.
          act_return (RetData results')))))"

definition execute_query ::
  "'v driver \<Rightarrow> string \<Rightarrow> bool \<Rightarrow> string \<Rightarrow> bool \<Rightarrow> bool \<Rightarrow> bool \<Rightarrow> ('v, 'v result) act" where
  "execute_query D query commit fetch return_dataframe return_records return_cursor =
     check_connection
       (act_bind (py_assert (fetch \<in> set [''one'', ''all'']) '''') (\<lambda>_.
        act_bind (py_assert (return_dataframe \<noteq> True \<or> return_records \<noteq> True)
                    ''return_dataframe and return_records cannot both be set to true'') (\<lambda>_.
        act_bind get_connection (\<lambda>mgr.
        with_stmt D mgr RetNone (\<lambda>connection.
          act_bind (call (ConnCursor connection) (conn_cursor D connection)) (\<lambda>cur.
          act_bind (call_unit (CursorExecute cur query) (cursor_execute D cur query)) (\<lambda>_.
          if commit then commit_branch D cur return_cursor
          else read_branch D cur fetch return_dataframe return_records return_cursor)))))))"

subsection \<open>Reading a result and a list of calls\<close>

fun result_cursor :: "'v result \<Rightarrow> cursor option" where
  "result_cursor RetNone = None"
| "result_cursor (RetCursor cur) = Some cur"
| "result_cursor (RetData p) = None"
| "result_cursor (RetDataCursor p cur) = Some cur"

fun result_payload :: "'v result \<Rightarrow> 'v payload option" where
  "result_payload RetNone = None"
| "result_payload (RetCursor cur) = None"
| "result_payload (RetData p) = Some p"
| "result_payload (RetDataCursor p cur) = Some p"

text \<open>Whether \<^verbatim>\<open>close()\<close> was called on a cursor, whatever it answered.\<close>

fun is_cursor_close :: "cursor \<Rightarrow> 'v event \<Rightarrow> bool" where
  "is_cursor_close cur (CursorClose cur' r) = (cur' = cur)"
| "is_cursor_close cur ev = False"

definition close_called :: "cursor \<Rightarrow> 'v event list \<Rightarrow> bool" where
  "close_called cur tr = list_ex (is_cursor_close cur) tr"

fun is_rollback :: "'v event \<Rightarrow> bool" where
  "is_rollback (ConnRollback c r) = True"
| "is_rollback ev = False"

fun is_execute :: "'v event \<Rightarrow> bool" where
  "is_execute (CursorExecute cur q r) = True"
| "is_execute ev = False"

subsection \<open>Live connections\<close>

text \<open>
  A connection handle is live from the \<^verbatim>\<open>connect\<close> that returned it until a \<^verbatim>\<open>close()\<close>
  on it returns. A \<^verbatim>\<open>close()\<close> that raises leaves it counted as live. \<open>live_step\<close>
  follows one call, \<open>always_single\<close> says that at every point of a list of calls at most
  one handle is live.
\<close>

fun live_step :: "conn list \<Rightarrow> 'v event \<Rightarrow> conn list" where
  "live_step l (Connect database user password host port (Inr c)) = c # l"
| "live_step l (ConnClose c None) = remove1 c l"
| "live_step l ev = l"

definition live_handles :: "'v event list \<Rightarrow> conn list" where
  "live_handles tr = foldl live_step [] tr"

fun always_single :: "conn list \<Rightarrow> 'v event list \<Rightarrow> bool" where
  "always_single l [] = (length l \<le> 1)"
| "always_single l (ev # tr) = (length l \<le> 1 \<and> always_single (live_step l ev) tr)"

text \<open>
  A caller that calls \<^verbatim>\<open>open_connection\<close> and \<^verbatim>\<open>close_connection\<close> any number of
  times, in any order, on one connector, going on after an exception. Each call comes
  with the answers the driver gives during it.
\<close>

datatype 'v api_call =
    OpenCall "'v driver" pystr pystr pystr pystr pystr string
  | CloseCall "'v driver"

fun run_call :: "'v api_call \<Rightarrow> connector \<Rightarrow> connector \<times> 'v event list" where
  "run_call (OpenCall D database user password host port connection_type) s =
     snd (open_connection D database user password host port connection_type s)"
| "run_call (CloseCall D) s = snd (close_connection D s)"

fun run_calls :: "'v api_call list \<Rightarrow> connector \<Rightarrow> connector \<times> 'v event list" where
  "run_calls [] s = (s, [])"
| "run_calls (ac # calls) s =
     (case run_call ac s of (s1, t1) \<Rightarrow>
        (case run_calls calls s1 of (s2, t2) \<Rightarrow> (s2, t1 @ t2)))"

subsection \<open>The driver contract\<close>

text \<open>
  Modelled from the spec: psycopg2 is not part of the repository. The driver
  collaborator contract of the specification lists the operations of the driver and
  notes a failure for three of them: \<^verbatim>\<open>connect\<close>, \<^verbatim>\<open>cursor.execute\<close> and
  \<^verbatim>\<open>connection.commit\<close>. For the operations it lists without such a note, the predicate
  below says that they return what the contract gives as their result:
  \<^verbatim>\<open>connection.close()\<close> returns nothing, \<^verbatim>\<open>connection.cursor()\<close> returns a cursor,
  \<^verbatim>\<open>fetchone()\<close> a row or none, \<^verbatim>\<open>fetchall()\<close> a sequence of rows,
  \<^verbatim>\<open>cursor.description\<close> is a sequence, and the connection is a resource guard:
  entering it returns, and leaving it returns without swallowing an exception of the
  block. A real driver can break each of these (any call raises on a lost connection).
  The predicate is used to select the runs of \<^verbatim>\<open>open_connection\<close> that reach
  \<^verbatim>\<open>connect\<close> and the runs of \<^verbatim>\<open>execute_query\<close> that reach their result; it says
  nothing about \<^verbatim>\<open>connection.rollback()\<close> and \<^verbatim>\<open>cursor.close()\<close>.
\<close>

definition driver_contract :: "'v driver \<Rightarrow> bool" where
  "driver_contract D \<longleftrightarrow>
     (\<forall>c. conn_close D c = None) \<and>
     (\<forall>c. \<exists>x. conn_enter D c = Inr x) \<and>
     (\<forall>c. \<exists>b. conn_exit D c None = ExitReturns b) \<and>
     (\<forall>c e. conn_exit D c (Some e) = ExitReturns False) \<and>
     (\<forall>c. \<exists>cur. conn_cursor D c = Inr cur) \<and>
     (\<forall>cur. \<exists>r. cursor_fetchone D cur = Inr r) \<and>
     (\<forall>cur. \<exists>rows. cursor_fetchall D cur = Inr rows) \<and>
     (\<forall>cur. cursor_description D cur \<noteq> None)"

subsection \<open>A driver to run the model on\<close>

datatype pyval = PyInt int | PyStr string | PyNone

text \<open>
  A driver on which every call returns: one connection, one cursor, and a result set with
  the columns \<^verbatim>\<open>id\<close> and \<^verbatim>\<open>name\<close> and the rows \<^verbatim>\<open>(1, "a")\<close> and \<^verbatim>\<open>(2, "b")\<close>.
  \<^verbatim>\<open>__enter__\<close> returns the connection itself and \<^verbatim>\<open>__exit__\<close> returns \<^verbatim>\<open>None\<close>, as
  psycopg2 does.
\<close>

definition pg :: "pyval driver" where
  "pg = \<lparr>connect = (\<lambda>database user password host port. Inr (Conn 1)),
         conn_close = (\<lambda>c. None),
         conn_enter = (\<lambda>c. Inr c),
         conn_exit = (\<lambda>c e. ExitReturns False),
         conn_cursor = (\<lambda>c. Inr (Cursor 7)),
         conn_commit = (\<lambda>c. None),
         conn_rollback = (\<lambda>c. None),
         cursor_execute = (\<lambda>cur q. None),
         cursor_fetchone = (\<lambda>cur. Inr (Some [PyInt 1, PyStr ''a''])),
         cursor_fetchall = (\<lambda>cur. Inr [[PyInt 1, PyStr ''a''], [PyInt 2, PyStr ''b'']]),
         cursor_description = (\<lambda>cur. Some [Column ''id'' 23, Column ''name'' 25]),
         cursor_close = (\<lambda>cur. None),
         pd_DataFrame = (\<lambda>rows columns. None)\<rparr>"

text \<open>A connector that holds the connection \<open>Conn 1\<close>.\<close>

definition connected :: connector where
  "connected = init\<lparr>self_connection := Some (Conn 1)\<rparr>"

text \<open>The same driver with one call that raises, or with another answer.\<close>

definition pg_commit_fails :: "pyval driver" where
  "pg_commit_fails = pg\<lparr>conn_commit := (\<lambda>c. Some (DriverError ''commit failed''))\<rparr>"

definition pg_execute_fails :: "pyval driver" where
  "pg_execute_fails = pg\<lparr>cursor_execute := (\<lambda>cur q. Some (DriverError ''syntax error''))\<rparr>"

definition pg_connect_fails :: "pyval driver" where
  "pg_connect_fails =
     pg\<lparr>connect := (\<lambda>database user password host port.
                       Inl (DriverError ''connection refused''))\<rparr>"

definition pg_no_row :: "pyval driver" where
  "pg_no_row = pg\<lparr>cursor_fetchone := (\<lambda>cur. Inr None)\<rparr>"

definition pg_second :: "pyval driver" where
  "pg_second = pg\<lparr>connect := (\<lambda>database user password host port. Inr (Conn 2))\<rparr>"

text \<open>A connection that is lost: \<^verbatim>\<open>commit()\<close> raises, and then \<^verbatim>\<open>rollback()\<close> too.\<close>

definition pg_rollback_fails :: "pyval driver" where
  "pg_rollback_fails =
     pg\<lparr>conn_commit := (\<lambda>c. Some (DriverError ''commit failed'')),
        conn_rollback := (\<lambda>c. Some (DriverError ''connection already closed''))\<rparr>"

text \<open>
  The live handles are exactly the connection the connector holds: the invariant of
  \<open>run_calls\<close>.
\<close>

definition live_matches :: "connector \<Rightarrow> conn list \<Rightarrow> bool" where
  "live_matches s l = (l = (case self_connection s of None \<Rightarrow> [] | Some c \<Rightarrow> [c]))"

section \<open>Properties\<close>

subsection \<open>Unfolding the model\<close>

lemmas act_defs =
  act_return_def py_raise_def act_bind_def try_except_def py_assert_def call_def
  call_unit_def effect_def get_connection_def del_connection_def with_stmt_def
  check_connection_def

lemmas query_defs =
  execute_query_def commit_branch_def read_branch_def fetch_results_def read_columns_def
  reshape_def

lemmas open_defs =
  open_connection_def close_connection_def set_config_def set_connection_def

lemmas pg_defs =
  pg_def pg_commit_fails_def pg_execute_fails_def pg_connect_fails_def pg_no_row_def
  pg_second_def pg_rollback_fails_def connected_def init_def

lemma unconnected_close:
  "self_connection s = None \<Longrightarrow>
     close_connection D s = (Inl (AssertionError ''there is no open connection.''), s, [])"
  by (simp add: close_connection_def act_defs)

lemma unconnected_execute:
  "self_connection s = None \<Longrightarrow>
     execute_query D query commit fetch return_dataframe return_records return_cursor s =
       (Inl (AssertionError ''there is no open connection.''), s, [])"
  by (simp add: execute_query_def act_defs)

text \<open>
  \<^verbatim>\<open>open_connection\<close> in one equation, for a driver whose \<^verbatim>\<open>close()\<close> returns on
  the connection that is held, if one is.
\<close>

lemma open_connection_after_close:
  assumes "\<forall>c. self_connection s = Some c \<longrightarrow> conn_close D c = None"
  shows "open_connection D database user password host port ct s =
           ((case connect D database user password host port of
               Inl e \<Rightarrow> Inl e | Inr c' \<Rightarrow> Inr ()),
            s\<lparr>self_connection :=
                 (case connect D database user password host port of
                    Inl e \<Rightarrow> None | Inr c' \<Rightarrow> Some c'),
              self_database := Some database, self_user := Some user,
              self_password := Some password, self_host := Some host,
              self_port := Some port\<rparr>,
            (case self_connection s of
               None \<Rightarrow> []
             | Some c \<Rightarrow> [ConnClose c None, GcCollect, Print ''connection closed''])
            @ [Connect database user password host port
                 (connect D database user password host port)])"
proof (cases "self_connection s")
  case None
  then show ?thesis
    by (simp add: open_defs act_defs split: sum.splits)
next
  case (Some c)
  with assms have "conn_close D c = None" by simp
  with Some show ?thesis
    by (simp add: open_defs act_defs split: sum.splits)
qed

subsection \<open>What the driver contract gives\<close>

lemma contract_close: "driver_contract D \<Longrightarrow> conn_close D c = None"
  by (simp add: driver_contract_def)

lemma contract_exit_return:
  "driver_contract D \<Longrightarrow> \<exists>b. conn_exit D c None = ExitReturns b"
  by (simp add: driver_contract_def)

lemma contract_exit_raise:
  "driver_contract D \<Longrightarrow> conn_exit D c (Some e) = ExitReturns False"
  by (simp add: driver_contract_def)

lemma pg_contract:
  "driver_contract pg" "driver_contract pg_commit_fails" "driver_contract pg_execute_fails"
  "driver_contract pg_connect_fails" "driver_contract pg_no_row" "driver_contract pg_second"
  by (auto simp add: driver_contract_def pg_defs)

subsection \<open>Record mappings\<close>

lemma update_fresh: "k \<notin> fst ` set al \<Longrightarrow> AList.update k v al = al @ [(k, v)]"
  by (induction al) auto

lemma fold_update_distinct:
  "distinct columns \<Longrightarrow> set columns \<inter> fst ` set acc = {} \<Longrightarrow>
     fold (\<lambda>(value, column) d. AList.update column value d) (zip row columns) acc =
     acc @ zip columns row"
proof (induction columns arbitrary: row acc)
  case Nil
  then show ?case by simp
next
  case (Cons k columns)
  show ?case
  proof (cases row)
    case Nil
    then show ?thesis by simp
  next
    case (Cons v row')
    have fresh: "k \<notin> fst ` set acc" using Cons.prems(2) by auto
    have "set columns \<inter> fst ` set (acc @ [(k, v)]) = {}"
      using Cons.prems by auto
    with Cons.IH [of "acc @ [(k, v)]" row'] Cons.prems(1)
    show ?thesis using Cons fresh by (simp add: update_fresh)
  qed
qed

text \<open>With column names that differ, the mapping lists the columns in their order.\<close>

lemma make_record_distinct:
  "distinct columns \<Longrightarrow> make_record row columns = zip columns row"
  using fold_update_distinct [of columns "[]" row] by (simp add: make_record_def)

lemma map_of_fold_update:
  "map_of (fold (\<lambda>(value, column) d. AList.update column value d) xs acc) k =
     (case map_of (rev (map (\<lambda>(value, column). (column, value)) xs)) k of
        None \<Rightarrow> map_of acc k | Some v \<Rightarrow> Some v)"
proof (induction xs arbitrary: acc)
  case Nil
  then show ?case by simp
next
  case (Cons x xs)
  obtain v c where x: "x = (v, c)" by (cases x)
  show ?case
    by (simp add: x Cons.IH update_conv' map_add_def split: option.splits)
qed

text \<open>With a column name that occurs twice, the value of its last occurrence stays.\<close>

lemma map_of_make_record:
  "map_of (make_record row columns) k = map_of (rev (zip columns row)) k"
proof -
  have sw: "map (\<lambda>(value, column). (column, value)) (zip row columns) = zip columns row"
    by (rule zip_commute [symmetric])
  have "map_of (make_record row columns) k =
          (case map_of (rev (map (\<lambda>(value, column). (column, value)) (zip row columns))) k of
             None \<Rightarrow> map_of [] k | Some v \<Rightarrow> Some v)"
    unfolding make_record_def by (rule map_of_fold_update)
  also have "\<dots> = map_of (rev (zip columns row)) k"
    unfolding sw by (simp split: option.splits)
  finally show ?thesis .
qed

subsection \<open>Live connections along a list of calls\<close>

lemma always_single_length: "always_single l tr \<Longrightarrow> length l \<le> 1"
  by (cases tr) auto

lemma always_single_append:
  "always_single l (t1 @ t2) =
     (always_single l t1 \<and> always_single (foldl live_step l t1) t2)"
  by (induction t1 arbitrary: l) (auto dest: always_single_length)

lemma close_connection_live:
  "live_matches s l \<Longrightarrow> close_connection D s = (r, s', t) \<Longrightarrow>
     always_single l t \<and> live_matches s' (foldl live_step l t)"
  by (auto simp add: close_connection_def act_defs live_matches_def
        split: option.splits if_splits)

lemma open_connection_live:
  "live_matches s l \<Longrightarrow>
   open_connection D database user password host port ct s = (r, s', t) \<Longrightarrow>
     always_single l t \<and> live_matches s' (foldl live_step l t)"
  by (auto simp add: open_defs act_defs live_matches_def
        split: option.splits if_splits sum.splits)

lemma run_call_live:
  "live_matches s l \<Longrightarrow> run_call ac s = (s', t) \<Longrightarrow>
     always_single l t \<and> live_matches s' (foldl live_step l t)"
proof (cases ac)
  case (OpenCall D database user password host port ct)
  assume h: "live_matches s l" and r: "run_call ac s = (s', t)"
  obtain res where "open_connection D database user password host port ct s = (res, s', t)"
    using r OpenCall by (cases "open_connection D database user password host port ct s") auto
  with h show ?thesis by (rule open_connection_live)
next
  case (CloseCall D)
  assume h: "live_matches s l" and r: "run_call ac s = (s', t)"
  obtain res where "close_connection D s = (res, s', t)"
    using r CloseCall by (cases "close_connection D s") auto
  with h show ?thesis by (rule close_connection_live)
qed

lemma run_calls_live:
  "live_matches s l \<Longrightarrow> run_calls calls s = (s', t) \<Longrightarrow>
     always_single l t \<and> live_matches s' (foldl live_step l t)"
proof (induction calls arbitrary: s l s' t)
  case Nil
  then show ?case by (auto simp add: live_matches_def split: option.splits)
next
  case (Cons ac calls)
  obtain s1 t1 where a: "run_call ac s = (s1, t1)" by (cases "run_call ac s")
  obtain s2 t2 where b: "run_calls calls s1 = (s2, t2)" by (cases "run_calls calls s1")
  have c: "s' = s2" "t = t1 @ t2" using Cons.prems(2) a b by auto
  have d: "always_single l t1 \<and> live_matches s1 (foldl live_step l t1)"
    using Cons.prems(1) a by (rule run_call_live)
  have e: "always_single (foldl live_step l t1) t2 \<and>
           live_matches s2 (foldl live_step (foldl live_step l t1) t2)"
    using d b Cons.IH by blast
  show ?case using c d e by (simp add: always_single_append)
qed

subsection \<open>The cursor on the calls that return\<close>

text \<open>
  A call of \<^verbatim>\<open>execute_query\<close> that returns, on a connection whose \<^verbatim>\<open>__exit__\<close> does not
  swallow exceptions, has created a cursor; with \<^verbatim>\<open>return_cursor=True\<close> the result holds
  that cursor and \<^verbatim>\<open>close()\<close> was not called on it, in the commit branch and in the read
  branch; with \<^verbatim>\<open>return_cursor=False\<close> the result holds no cursor and
  \<^verbatim>\<open>cursor.close()\<close> returned as the last call before the \<^verbatim>\<open>with\<close> block was left.
\<close>

lemma cursor_open_or_closed:
  assumes "execute_query D query commit fetch return_dataframe return_records return_cursor s =
             (Inr res, s', tr)"
    and "\<forall>c e. conn_exit D c (Some e) \<noteq> ExitReturns True"
  shows "\<exists>x cur. ConnCursor x (Inr cur) \<in> set tr \<and>
           (if return_cursor
            then result_cursor res = Some cur \<and> \<not> close_called cur tr
            else result_cursor res = None \<and>
                 (\<exists>pre c r. tr = pre @ [CursorClose cur None, ConnExit c None r]))"
  using assms
  by (auto simp add: query_defs act_defs close_called_def
      split: if_splits sum.splits option.splits exit_outcome.splits prod.splits)

subsection \<open>Rollback\<close>

text \<open>
  Whatever the driver answers, \<^verbatim>\<open>execute_query\<close> calls \<^verbatim>\<open>rollback()\<close> only in the commit
  branch, and only when \<^verbatim>\<open>commit()\<close> has raised.
\<close>

lemma rollback_only_after_commit_failure:
  assumes "execute_query D query commit fetch return_dataframe return_records return_cursor s =
             (r, s', tr)"
    and "list_ex is_rollback tr"
  shows "commit \<and> (\<exists>c e. ConnCommit c (Some e) \<in> set tr)"
  using assms
  by (auto simp add: query_defs act_defs
      split: if_splits sum.splits option.splits exit_outcome.splits prod.splits)

section \<open>The claims\<close>




text \<open>
  Claim C2. With \<^verbatim>\<open>return_cursor=True\<close> the result holds a cursor that is still open, in
  the commit branch and in the read branch; with \<^verbatim>\<open>return_cursor=False\<close>,
  \<^verbatim>\<open>cursor.close()\<close> is called before the call returns or lets an exception pass, also
  when \<^verbatim>\<open>cursor.execute\<close> raises. The docstring says of \<^verbatim>\<open>return_cursor\<close> "Return open
  cursor else close it", and lines 117 and 140 close the cursor on the two paths that
  return. The source has no \<^verbatim>\<open>try/finally\<close>, and on the path of an exception it does
  not do so: in this call with \<^verbatim>\<open>return_cursor=False\<close>, \<^verbatim>\<open>cursor.execute\<close> raises, the
  exception leaves \<^verbatim>\<open>execute_query\<close> through the \<^verbatim>\<open>with\<close> block, and \<^verbatim>\<open>close()\<close> has not
  been called on the cursor.
\<close>

theorem execute_error_leaves_cursor_open:
  "execute_query pg_execute_fails ''SELEC 1'' False ''all'' False False False connected =
     (Inl (DriverError ''syntax error''), connected,
      [ConnEnter (Conn 1) (Inr (Conn 1)), ConnCursor (Conn 1) (Inr (Cursor 7)),
       CursorExecute (Cursor 7) ''SELEC 1'' (Some (DriverError ''syntax error'')),
       ConnExit (Conn 1) (Some (DriverError ''syntax error'')) (ExitReturns False)]) \<and>
   \<not> close_called (Cursor 7)
       (snd (snd (execute_query pg_execute_fails ''SELEC 1'' False ''all'' False False False
                    connected)))"
  by (simp add: query_defs act_defs pg_defs close_called_def)

theorem execute_error_leaves_cursor_open_witness:
  "\<not> close_called (Cursor 7)
       (snd (snd (execute_query pg_execute_fails ''SELEC 1'' False ''all'' False False False
                    connected)))"
  by (rule execute_error_leaves_cursor_open [THEN conjunct2])

text \<open>
  Claim C3. When \<^verbatim>\<open>fetch\<close> is neither \<^verbatim>\<open>"one"\<close> nor \<^verbatim>\<open>"all"\<close>, or
  \<^verbatim>\<open>return_dataframe\<close> and \<^verbatim>\<open>return_records\<close> are both true, \<^verbatim>\<open>execute_query\<close> fails
  with an \<^verbatim>\<open>AssertionError\<close> whatever the query is, and has called nothing: no cursor was
  created and no SQL was executed. On a connector that holds a connection the error is
  the one of the violated assertion of lines 97 to 100; on one that holds none it is the
  assertion of the decorator.
\<close>

theorem invalid_request_fails:
  "fetch \<notin> {''one'', ''all''} \<or> (return_dataframe \<and> return_records) \<Longrightarrow>
     execute_query D query commit fetch return_dataframe return_records return_cursor s =
       (Inl (AssertionError
              (if self_connection s = None then ''there is no open connection.''
               else if fetch \<notin> {''one'', ''all''} then []
               else ''return_dataframe and return_records cannot both be set to true'')),
        s, [])"
  by (auto simp add: execute_query_def act_defs)

theorem invalid_request_fails_witness:
  "execute_query pg ''SELECT 1'' False ''all'' True True False connected =
     (Inl (AssertionError ''return_dataframe and return_records cannot both be set to true''),
      connected, []) \<and>
   execute_query pg ''SELECT 1'' False ''two'' False False False connected =
     (Inl (AssertionError []), connected, [])"
proof -
  have held: "self_connection connected \<noteq> None"
    by (simp add: connected_def)
  have a: "execute_query pg ''SELECT 1'' False ''all'' True True False connected =
       (Inl (AssertionError
              (if self_connection connected = None then ''there is no open connection.''
               else if ''all'' \<notin> {''one'', ''all''} then []
               else ''return_dataframe and return_records cannot both be set to true'')),
        connected, [])"
    by (rule invalid_request_fails) simp
  have b: "execute_query pg ''SELECT 1'' False ''two'' False False False connected =
       (Inl (AssertionError
              (if self_connection connected = None then ''there is no open connection.''
               else if ''two'' \<notin> {''one'', ''all''} then []
               else ''return_dataframe and return_records cannot both be set to true'')),
        connected, [])"
    by (rule invalid_request_fails) simp
  show ?thesis using a b held by simp
qed

text \<open>
  Claim C4. On a connector that holds no connection, \<^verbatim>\<open>close_connection()\<close> fails with
  the assertion error "there is no open connection.", and so does \<^verbatim>\<open>execute_query\<close> with
  any arguments; neither calls the driver, and the connector is left as it was.
\<close>

theorem no_connection_fails:
  "self_connection s = None \<Longrightarrow>
     close_connection D s = (Inl (AssertionError ''there is no open connection.''), s, []) \<and>
     execute_query D query commit fetch return_dataframe return_records return_cursor s =
       (Inl (AssertionError ''there is no open connection.''), s, [])"
  by (simp add: unconnected_close unconnected_execute)

theorem no_connection_fails_witness:
  "close_connection pg init = (Inl (AssertionError ''there is no open connection.''), init, []) \<and>
   execute_query pg ''SELECT 1'' False ''all'' False False False init =
     (Inl (AssertionError ''there is no open connection.''), init, [])"
  by (rule no_connection_fails) (simp add: init_def)

text \<open>
  Claim C5. Along any list of calls of \<^verbatim>\<open>open_connection\<close> (and of
  \<^verbatim>\<open>close_connection\<close>) on a new connector, whatever the driver answers, at most one
  connection handle is live at every point, and at the end the live handles are the
  connection the connector holds. When \<^verbatim>\<open>open_connection\<close> is called on a connector that
  holds a connection, its first call is \<^verbatim>\<open>close()\<close> on that connection, by
  \<^verbatim>\<open>close_connection\<close>; \<^verbatim>\<open>connect\<close> is called only after that \<^verbatim>\<open>close()\<close> has
  returned.
\<close>

theorem single_live_connection:
  "always_single [] (snd (run_calls calls init)) \<and>
   live_handles (snd (run_calls calls init)) =
     (case self_connection (fst (run_calls calls init)) of None \<Rightarrow> [] | Some c \<Rightarrow> [c]) \<and>
   (self_connection s = Some c \<longrightarrow>
      snd (snd (open_connection D database user password host port ct s)) =
        ConnClose c (conn_close D c) #
        (if conn_close D c = None
         then [GcCollect, Print ''connection closed'',
               Connect database user password host port
                 (connect D database user password host port)]
         else []))"
proof -
  obtain s' t where r: "run_calls calls init = (s', t)" by (cases "run_calls calls init")
  have "live_matches init []" by (simp add: live_matches_def init_def)
  from run_calls_live [OF this r]
  have "always_single [] t" "live_matches s' (foldl live_step [] t)" by auto
  then have a: "always_single [] (snd (run_calls calls init))"
    and b: "live_handles (snd (run_calls calls init)) =
     (case self_connection (fst (run_calls calls init)) of None \<Rightarrow> [] | Some c \<Rightarrow> [c])"
    using r by (simp_all add: live_matches_def live_handles_def)
  have c: "self_connection s = Some c \<longrightarrow>
      snd (snd (open_connection D database user password host port ct s)) =
        ConnClose c (conn_close D c) #
        (if conn_close D c = None
         then [GcCollect, Print ''connection closed'',
               Connect database user password host port
                 (connect D database user password host port)]
         else [])"
    by (auto simp add: open_defs act_defs split: sum.splits)
  show ?thesis using a b c by blast
qed

theorem single_live_connection_witness:
  "always_single []
     (snd (run_calls [OpenCall pg (Some ''db1'') None None None None ''postgres'',
                      OpenCall pg_second (Some ''db2'') None None None None ''postgres'']
             init)) \<and>
   live_handles
     (snd (run_calls [OpenCall pg (Some ''db1'') None None None None ''postgres'',
                      OpenCall pg_second (Some ''db2'') None None None None ''postgres'']
             init)) = [Conn 2] \<and>
   snd (snd (open_connection pg_second (Some ''db2'') None None None None ''postgres''
               connected)) =
     [ConnClose (Conn 1) None, GcCollect, Print ''connection closed'',
      Connect (Some ''db2'') None None None None (Inr (Conn 2))]"
proof -
  have final: "self_connection
      (fst (run_calls [OpenCall pg (Some ''db1'') None None None None ''postgres'',
                       OpenCall pg_second (Some ''db2'') None None None None ''postgres'']
              init)) = Some (Conn 2)"
    by (simp add: open_defs act_defs pg_defs)
  have held: "self_connection connected = Some (Conn 1)"
    by (simp add: connected_def)
  have closes: "conn_close pg_second (Conn 1) = None"
    by (simp add: pg_defs)
  have connects: "connect pg_second (Some ''db2'') None None None None = Inr (Conn 2)"
    by (simp add: pg_defs)
  show ?thesis
    using single_live_connection [where
        calls = "[OpenCall pg (Some ''db1'') None None None None ''postgres'',
                  OpenCall pg_second (Some ''db2'') None None None None ''postgres'']"
        and s = connected and c = "Conn 1" and D = pg_second and database = "Some ''db2''"
        and user = None and password = None and host = None and port = None
        and ct = "''postgres''"]
    by (simp only: final held closes connects option.case if_True simp_thms)
qed

text \<open>
  Claim C6. In the read branch with \<^verbatim>\<open>return_records=True\<close>, the result is the list of
  the fetched rows, in the order they were fetched, each turned into a mapping from the
  column names to the values of that row. When the column names differ from each other,
  the mapping lists the columns in their order, each with the value at its position; in
  any case a column name is mapped to the value at its last position in the row. For the
  rows \<^verbatim>\<open>(1, "a")\<close> and \<^verbatim>\<open>(2, "b")\<close> with the columns \<^verbatim>\<open>id\<close> and \<^verbatim>\<open>name\<close> the result
  is \<^verbatim>\<open>[{"id": 1, "name": "a"}, {"id": 2, "name": "b"}]\<close>.
\<close>

theorem records_output:
  assumes "driver_contract D"
    and "self_connection s = Some c"
    and "conn_enter D c = Inr x"
    and "conn_cursor D x = Inr cur"
    and "cursor_execute D cur query = None"
    and "fetch = ''one'' \<and> cursor_fetchone D cur = Inr r \<and>
           rows = (case r of None \<Rightarrow> [] | Some row \<Rightarrow> [row]) \<or>
         fetch = ''all'' \<and> cursor_fetchall D cur = Inr rows"
    and "cursor_description D cur = Some description"
    and "return_cursor \<or> cursor_close D cur = None"
  shows "fst (execute_query D query False fetch False True return_cursor s) =
           Inr (if return_cursor
                then RetDataCursor
                       (Records (map (\<lambda>row. make_record row (map col_name description)) rows)) cur
                else RetData
                       (Records (map (\<lambda>row. make_record row (map col_name description)) rows))) \<and>
         (distinct (map col_name description) \<longrightarrow>
            (\<forall>row \<in> set rows.
               make_record row (map col_name description) =
               zip (map col_name description) row)) \<and>
         (\<forall>row \<in> set rows. \<forall>k.
            map_of (make_record row (map col_name description)) k =
            map_of (rev (zip (map col_name description) row)) k)"
proof -
  obtain b where leave: "conn_exit D c None = ExitReturns b"
    using contract_exit_return [OF assms(1)] by blast
  have "fst (execute_query D query False fetch False True return_cursor s) =
           Inr (if return_cursor
                then RetDataCursor
                       (Records (map (\<lambda>row. make_record row (map col_name description)) rows)) cur
                else RetData
                       (Records (map (\<lambda>row. make_record row (map col_name description)) rows)))"
    using assms(2-8) leave by (auto simp add: query_defs act_defs)
  then show ?thesis by (simp add: make_record_distinct map_of_make_record)
qed

theorem records_output_witness:
  "fst (execute_query pg ''SELECT id, name FROM t'' False ''all'' False True False connected) =
     Inr (RetData (Records [[(''id'', PyInt 1), (''name'', PyStr ''a'')],
                            [(''id'', PyInt 2), (''name'', PyStr ''b'')]]))"
proof -
  have out: "fst (execute_query pg ''SELECT id, name FROM t'' False ''all'' False True False
                connected) =
           Inr (if False
                then RetDataCursor
                       (Records (map (\<lambda>row. make_record row
                                        (map col_name [Column ''id'' 23, Column ''name'' 25]))
                                  [[PyInt 1, PyStr ''a''], [PyInt 2, PyStr ''b'']])) (Cursor 7)
                else RetData
                       (Records (map (\<lambda>row. make_record row
                                        (map col_name [Column ''id'' 23, Column ''name'' 25]))
                                  [[PyInt 1, PyStr ''a''], [PyInt 2, PyStr ''b'']]))) \<and>
         (distinct (map col_name [Column ''id'' 23, Column ''name'' 25]) \<longrightarrow>
            (\<forall>row \<in> set [[PyInt 1, PyStr ''a''], [PyInt 2, PyStr ''b'']].
               make_record row (map col_name [Column ''id'' 23, Column ''name'' 25]) =
               zip (map col_name [Column ''id'' 23, Column ''name'' 25]) row)) \<and>
         (\<forall>row \<in> set [[PyInt 1, PyStr ''a''], [PyInt 2, PyStr ''b'']]. \<forall>k.
            map_of (make_record row (map col_name [Column ''id'' 23, Column ''name'' 25])) k =
            map_of (rev (zip (map col_name [Column ''id'' 23, Column ''name'' 25]) row)) k)"
    by (rule records_output [OF pg_contract(1), where c = "Conn 1" and x = "Conn 1"
          and r = None])
       (simp_all add: pg_defs)
  then show ?thesis by simp
qed

text \<open>
  Claim C7. In the read branch with \<^verbatim>\<open>fetch="one"\<close>, the sequence of results is empty
  when \<^verbatim>\<open>fetchone()\<close> gives no row, and holds that row alone, its values in the order of
  the columns, when it gives one. This is the sequence that is returned as it is, turned
  into a data frame, or turned into record mappings, with the cursor beside it when
  \<^verbatim>\<open>return_cursor\<close> is true.
\<close>

theorem fetch_one_output:
  assumes "driver_contract D"
    and "self_connection s = Some c"
    and "\<not> (return_dataframe \<and> return_records)"
    and "conn_enter D c = Inr x"
    and "conn_cursor D x = Inr cur"
    and "cursor_execute D cur query = None"
    and "cursor_fetchone D cur = Inr r"
    and "cursor_description D cur = Some description"
    and "return_dataframe \<longrightarrow>
           pd_DataFrame D (case r of None \<Rightarrow> [] | Some row \<Rightarrow> [row])
             (map col_name description) = None"
    and "return_cursor \<or> cursor_close D cur = None"
  shows "\<exists>res. fst (execute_query D query False ''one'' return_dataframe return_records
                  return_cursor s) = Inr res \<and>
           result_cursor res = (if return_cursor then Some cur else None) \<and>
           result_payload res =
             Some (case r of
                     None \<Rightarrow>
                       if return_dataframe then DataFrame [] (map col_name description)
                       else if return_records then Records []
                       else Rows []
                   | Some row \<Rightarrow>
                       if return_dataframe then DataFrame [row] (map col_name description)
                       else if return_records
                         then Records [make_record row (map col_name description)]
                       else Rows [row])"
proof -
  obtain b where leave: "conn_exit D c None = ExitReturns b"
    using contract_exit_return [OF assms(1)] by blast
  show ?thesis
    using assms(2-10) leave
    by (auto simp add: query_defs act_defs split: option.splits)
qed

theorem fetch_one_output_witness:
  "(\<exists>res. fst (execute_query pg_no_row ''SELECT id, name FROM t WHERE id = 9'' False ''one''
                 False False False connected) = Inr res \<and>
          result_cursor res = None \<and> result_payload res = Some (Rows [])) \<and>
   (\<exists>res. fst (execute_query pg ''SELECT id, name FROM t WHERE id = 1'' False ''one''
                 False False True connected) = Inr res \<and>
          result_cursor res = Some (Cursor 7) \<and>
          result_payload res = Some (Rows [[PyInt 1, PyStr ''a'']]))"
proof -
  have a: "\<exists>res. fst (execute_query pg_no_row ''SELECT id, name FROM t WHERE id = 9'' False
                  ''one'' False False False connected) = Inr res \<and>
           result_cursor res = (if False then Some (Cursor 7) else None) \<and>
           result_payload res =
             Some (case None of
                     None \<Rightarrow>
                       if False
                       then DataFrame [] (map col_name [Column ''id'' 23, Column ''name'' 25])
                       else if False then Records []
                       else Rows []
                   | Some row \<Rightarrow>
                       if False
                       then DataFrame [row] (map col_name [Column ''id'' 23, Column ''name'' 25])
                       else if False
                         then Records [make_record row
                                         (map col_name [Column ''id'' 23, Column ''name'' 25])]
                       else Rows [row])"
    by (rule fetch_one_output [OF pg_contract(5), where c = "Conn 1" and x = "Conn 1"])
       (simp_all add: pg_defs)
  have b: "\<exists>res. fst (execute_query pg ''SELECT id, name FROM t WHERE id = 1'' False
                  ''one'' False False True connected) = Inr res \<and>
           result_cursor res = (if True then Some (Cursor 7) else None) \<and>
           result_payload res =
             Some (case Some [PyInt 1, PyStr ''a''] of
                     None \<Rightarrow>
                       if False
                       then DataFrame [] (map col_name [Column ''id'' 23, Column ''name'' 25])
                       else if False then Records []
                       else Rows []
                   | Some row \<Rightarrow>
                       if False
                       then DataFrame [row] (map col_name [Column ''id'' 23, Column ''name'' 25])
                       else if False
                         then Records [make_record row
                                         (map col_name [Column ''id'' 23, Column ''name'' 25])]
                       else Rows [row])"
    by (rule fetch_one_output [OF pg_contract(1), where c = "Conn 1" and x = "Conn 1"])
       (simp_all add: pg_defs)
  show ?thesis using a b by simp
qed

text \<open>
  Claim C8. When \<^verbatim>\<open>cursor.execute\<close> raises, \<^verbatim>\<open>execute_query\<close> has called it once and
  then calls nothing but the exit of the \<^verbatim>\<open>with\<close> block: it does not execute again, and
  it calls neither \<^verbatim>\<open>rollback()\<close> nor anything else on the connection or the cursor. The
  exception goes to the caller as it is; the connection, a resource guard by the driver
  contract, lets it pass.
\<close>

theorem execute_error_propagates:
  assumes "driver_contract D"
    and "self_connection s = Some c"
    and "fetch \<in> {''one'', ''all''}"
    and "\<not> (return_dataframe \<and> return_records)"
    and "conn_enter D c = Inr x"
    and "conn_cursor D x = Inr cur"
    and "cursor_execute D cur query = Some e"
  shows "execute_query D query commit fetch return_dataframe return_records return_cursor s =
           (Inl e, s,
            [ConnEnter c (Inr x), ConnCursor x (Inr cur), CursorExecute cur query (Some e),
             ConnExit c (Some e) (ExitReturns False)]) \<and>
         \<not> list_ex is_rollback
             (snd (snd (execute_query D query commit fetch return_dataframe return_records
                          return_cursor s))) \<and>
         length (filter is_execute
             (snd (snd (execute_query D query commit fetch return_dataframe return_records
                          return_cursor s)))) = 1"
proof -
  have passes: "conn_exit D c (Some e) = ExitReturns False"
    using assms(1) by (rule contract_exit_raise)
  have "execute_query D query commit fetch return_dataframe return_records return_cursor s =
           (Inl e, s,
            [ConnEnter c (Inr x), ConnCursor x (Inr cur), CursorExecute cur query (Some e),
             ConnExit c (Some e) (ExitReturns False)])"
    using assms(2-7) passes by (auto simp add: execute_query_def act_defs)
  then show ?thesis by simp
qed

theorem execute_error_propagates_witness:
  "execute_query pg_execute_fails ''INSERT INTO t VALUES (1)'' True ''all'' False False False
     connected =
     (Inl (DriverError ''syntax error''), connected,
      [ConnEnter (Conn 1) (Inr (Conn 1)), ConnCursor (Conn 1) (Inr (Cursor 7)),
       CursorExecute (Cursor 7) ''INSERT INTO t VALUES (1)''
         (Some (DriverError ''syntax error'')),
       ConnExit (Conn 1) (Some (DriverError ''syntax error'')) (ExitReturns False)]) \<and>
   \<not> list_ex is_rollback
       (snd (snd (execute_query pg_execute_fails ''INSERT INTO t VALUES (1)'' True ''all''
                    False False False connected))) \<and>
   length (filter is_execute
       (snd (snd (execute_query pg_execute_fails ''INSERT INTO t VALUES (1)'' True ''all''
                    False False False connected)))) = 1"
  by (rule execute_error_propagates [OF pg_contract(3)]) (simp_all add: pg_defs)

text \<open>
  Claim C9. When the driver's \<^verbatim>\<open>connect\<close> raises in \<^verbatim>\<open>open_connection\<close>, the exception
  goes to the caller as it is and the connector holds no connection afterwards, so that
  \<^verbatim>\<open>close_connection\<close> and \<^verbatim>\<open>execute_query\<close> then fail with the assertion error "there is
  no open connection." without calling the driver. (By the driver contract the
  \<^verbatim>\<open>close()\<close> of a connection held before returns, so that \<^verbatim>\<open>connect\<close> is reached.)
\<close>

theorem connect_failure_no_connection:
  assumes "driver_contract D"
    and "connect D database user password host port = Inl e"
    and "open_connection D database user password host port ct s = (r, s', t)"
  shows "r = Inl e \<and> self_connection s' = None \<and>
         close_connection D' s' =
           (Inl (AssertionError ''there is no open connection.''), s', []) \<and>
         execute_query D' query commit fetch return_dataframe return_records return_cursor s' =
           (Inl (AssertionError ''there is no open connection.''), s', [])"
proof -
  have closes: "\<forall>c. self_connection s = Some c \<longrightarrow> conn_close D c = None"
    using assms(1) by (simp add: contract_close)
  have "r = Inl e" "self_connection s' = None"
    using assms(2,3) open_connection_after_close [OF closes] by auto
  then show ?thesis by (simp add: unconnected_close unconnected_execute)
qed

theorem connect_failure_no_connection_witness:
  "fst (open_connection pg_connect_fails (Some ''db'') (Some ''me'') None None None
          ''postgres'' connected) = Inl (DriverError ''connection refused'') \<and>
   self_connection (fst (snd (open_connection pg_connect_fails (Some ''db'') (Some ''me'')
          None None None ''postgres'' connected))) = None \<and>
   close_connection pg (fst (snd (open_connection pg_connect_fails (Some ''db'')
          (Some ''me'') None None None ''postgres'' connected))) =
     (Inl (AssertionError ''there is no open connection.''),
      fst (snd (open_connection pg_connect_fails (Some ''db'')
          (Some ''me'') None None None ''postgres'' connected)), []) \<and>
   execute_query pg ''SELECT 1'' False ''all'' False False False
          (fst (snd (open_connection pg_connect_fails (Some ''db'')
          (Some ''me'') None None None ''postgres'' connected))) =
     (Inl (AssertionError ''there is no open connection.''),
      fst (snd (open_connection pg_connect_fails (Some ''db'')
          (Some ''me'') None None None ''postgres'' connected)), [])"
proof -
  have fails: "connect pg_connect_fails (Some ''db'') (Some ''me'') None None None =
                 Inl (DriverError ''connection refused'')"
    by (simp add: pg_defs)
  have run: "open_connection pg_connect_fails (Some ''db'') (Some ''me'') None None None
               ''postgres'' connected =
             (fst (open_connection pg_connect_fails (Some ''db'') (Some ''me'') None None None
                     ''postgres'' connected),
              fst (snd (open_connection pg_connect_fails (Some ''db'') (Some ''me'') None None
                     None ''postgres'' connected)),
              snd (snd (open_connection pg_connect_fails (Some ''db'') (Some ''me'') None None
                     None ''postgres'' connected)))"
    by simp
  show ?thesis
    by (rule connect_failure_no_connection [OF pg_contract(4) fails run])
qed

text \<open>
  Claim C10. \<^verbatim>\<open>open_connection\<close> stores the database, user, password, host and port it
  was given before it calls the driver's \<^verbatim>\<open>connect\<close>: \<^verbatim>\<open>connect\<close> is its last call,
  made with the new values, and the five attributes hold the new values afterwards, also
  when \<^verbatim>\<open>connect\<close> raises, in which case the exception propagates and no connection is
  held. (By the driver contract the \<^verbatim>\<open>close()\<close> of a connection held before returns, so
  that the assignments and \<^verbatim>\<open>connect\<close> are reached.)
\<close>

theorem config_overwritten_before_connect:
  assumes "driver_contract D"
    and "open_connection D database user password host port ct s = (r, s', t)"
  shows "last t = Connect database user password host port
                    (connect D database user password host port) \<and>
         self_database s' = Some database \<and> self_user s' = Some user \<and>
         self_password s' = Some password \<and> self_host s' = Some host \<and>
         self_port s' = Some port \<and>
         (\<forall>e. connect D database user password host port = Inl e \<longrightarrow>
            r = Inl e \<and> self_connection s' = None)"
proof -
  have closes: "\<forall>c. self_connection s = Some c \<longrightarrow> conn_close D c = None"
    using assms(1) by (simp add: contract_close)
  show ?thesis
    using assms(2) open_connection_after_close [OF closes] by auto
qed

theorem config_overwritten_before_connect_witness:
  "self_database (fst (snd (open_connection pg_connect_fails (Some ''db'') (Some ''me'')
       (Some ''pw'') (Some ''h'') (Some ''5432'') ''postgres'' connected))) = Some (Some ''db'') \<and>
   self_user (fst (snd (open_connection pg_connect_fails (Some ''db'') (Some ''me'')
       (Some ''pw'') (Some ''h'') (Some ''5432'') ''postgres'' connected))) = Some (Some ''me'') \<and>
   self_password (fst (snd (open_connection pg_connect_fails (Some ''db'') (Some ''me'')
       (Some ''pw'') (Some ''h'') (Some ''5432'') ''postgres'' connected))) = Some (Some ''pw'') \<and>
   self_host (fst (snd (open_connection pg_connect_fails (Some ''db'') (Some ''me'')
       (Some ''pw'') (Some ''h'') (Some ''5432'') ''postgres'' connected))) = Some (Some ''h'') \<and>
   self_port (fst (snd (open_connection pg_connect_fails (Some ''db'') (Some ''me'')
       (Some ''pw'') (Some ''h'') (Some ''5432'') ''postgres'' connected))) = Some (Some ''5432'') \<and>
   fst (open_connection pg_connect_fails (Some ''db'') (Some ''me'')
       (Some ''pw'') (Some ''h'') (Some ''5432'') ''postgres'' connected) =
     Inl (DriverError ''connection refused'') \<and>
   self_connection (fst (snd (open_connection pg_connect_fails (Some ''db'') (Some ''me'')
       (Some ''pw'') (Some ''h'') (Some ''5432'') ''postgres'' connected))) = None"
proof -
  have fails: "connect pg_connect_fails (Some ''db'') (Some ''me'') (Some ''pw'') (Some ''h'')
                 (Some ''5432'') = Inl (DriverError ''connection refused'')"
    by (simp add: pg_defs)
  have run: "open_connection pg_connect_fails (Some ''db'') (Some ''me'') (Some ''pw'')
               (Some ''h'') (Some ''5432'') ''postgres'' connected =
             (fst (open_connection pg_connect_fails (Some ''db'') (Some ''me'') (Some ''pw'')
                     (Some ''h'') (Some ''5432'') ''postgres'' connected),
              fst (snd (open_connection pg_connect_fails (Some ''db'') (Some ''me'')
                     (Some ''pw'') (Some ''h'') (Some ''5432'') ''postgres'' connected)),
              snd (snd (open_connection pg_connect_fails (Some ''db'') (Some ''me'')
                     (Some ''pw'') (Some ''h'') (Some ''5432'') ''postgres'' connected)))"
    by simp
  from config_overwritten_before_connect [OF pg_contract(4) run] fails
  show ?thesis by simp
qed

end
